theory Spec2Isabelle
  imports Complex_Main
begin

section \<open>The rule-based answer scorer and the voice confidence estimate\<close>

text \<open>
  The development embeds two pieces of the repository:
  \<^item> \<^verbatim>\<open>scoreAnswer\<close> of \<^verbatim>\<open>supabase/functions/score-answer/index.ts\<close>, the
    rule-based scorer;
  \<^item> the voice analytics block of \<^verbatim>\<open>supabase/functions/analyze-answers/index.ts\<close>
    (the body of \<^verbatim>\<open>if (answer.transcript) { ... }\<close>).

  Conventions of the embedding.
  \<^item> A JavaScript string is a \<open>string\<close> (a list of 8-bit characters, read as the UTF-8
    bytes of the text). Case mapping and the whitespace class \<^verbatim>\<open>\s\<close> are modelled on
    ASCII; other bytes are neither letters nor whitespace.
  \<^item> A JavaScript number is a rational, with exact arithmetic. A division whose divisor
    is zero has no rational value (JavaScript yields \<^verbatim>\<open>Infinity\<close> or \<^verbatim>\<open>NaN\<close>): it is
    the error \<open>NonFinite\<close>, and every function that divides returns \<open>error + _\<close>.
  \<^item> \<^verbatim>\<open>Math.round(x)\<close> is \<open>\<lfloor>x + 1/2\<rfloor>\<close>.
\<close>

subsection \<open>Strings\<close>

definition isSpace :: "char \<Rightarrow> bool" where
  \<comment> \<open>the class \<^verbatim>\<open>\s\<close> on ASCII: TAB, LF, VT, FF, CR and the space\<close>
  "isSpace c = (c \<in> set [CHR 0x09, CHR 0x0A, CHR 0x0B, CHR 0x0C, CHR 0x0D, CHR 0x20])"

definition toLowerChar :: "char \<Rightarrow> char" where
  "toLowerChar c =
     (let n = (of_char c :: nat) in if 65 \<le> n \<and> n \<le> 90 then char_of (n + 32) else c)"

definition toLowerCase :: "string \<Rightarrow> string" where
  "toLowerCase s = map toLowerChar s"

definition trim :: "string \<Rightarrow> string" where
  "trim s = rev (dropWhile isSpace (rev (dropWhile isSpace s)))"

text \<open>
  \<^verbatim>\<open>s.split(/[...]+/)\<close>: the fragments between the maximal runs of separator characters.
  A separator at the start or at the end leaves an empty fragment there, and the empty
  string splits into one empty fragment, as in JavaScript.
\<close>

function splitRe :: "(char \<Rightarrow> bool) \<Rightarrow> string \<Rightarrow> string list" where
  "splitRe sep [] = [[]]"
| "splitRe sep (c # cs) =
     (if sep c then [] # splitRe sep (dropWhile sep cs)
      else (case splitRe sep cs of [] \<Rightarrow> [[c]] | f # fs \<Rightarrow> (c # f) # fs))"
  by pat_completeness auto
termination
  by (relation "measure (\<lambda>(sep, s). length s)")
     (auto simp: less_Suc_eq_le length_dropWhile_le)

fun startsWith :: "string \<Rightarrow> string \<Rightarrow> bool" where
  \<comment> \<open>\<open>startsWith s p\<close>: \<open>p\<close> is a prefix of \<open>s\<close>\<close>
  "startsWith s [] = True"
| "startsWith [] (p # ps) = False"
| "startsWith (c # cs) (p # ps) = (c = p \<and> startsWith cs ps)"

fun includes_str :: "string \<Rightarrow> string \<Rightarrow> bool" where
  \<comment> \<open>\<^verbatim>\<open>s.includes(sub)\<close>\<close>
  "includes_str [] sub = (sub = [])"
| "includes_str (c # cs) sub = (startsWith (c # cs) sub \<or> includes_str cs sub)"

text \<open>
  \<^verbatim>\<open>s.split(sep)\<close> for a string separator: the text is scanned from the left and cut at
  each occurrence of \<open>sep\<close>, the scan resuming after the occurrence. \<open>acc\<close> is the
  current fragment, reversed. The separator is never empty in the code (it ranges over
  the literal filler words); the empty separator is outside the model.
\<close>

function splitStr :: "string \<Rightarrow> string \<Rightarrow> string \<Rightarrow> string list" where
  "splitStr sep acc [] = [rev acc]"
| "splitStr sep acc (c # cs) =
     (if startsWith (c # cs) sep then rev acc # splitStr sep [] (drop (length sep - 1) cs)
      else splitStr sep (c # acc) cs)"
  by pat_completeness auto
termination
  by (relation "measure (\<lambda>(sep, acc, s). length s)") auto

definition split_str :: "string \<Rightarrow> string \<Rightarrow> string list" where
  "split_str s sep = splitStr sep [] s"

fun join :: "string list \<Rightarrow> string \<Rightarrow> string" where
  \<comment> \<open>\<^verbatim>\<open>xs.join(sep)\<close>\<close>
  "join [] sep = []"
| "join [x] sep = x"
| "join (x # y # ys) sep = x @ sep @ join (y # ys) sep"

subsection \<open>Numbers\<close>

datatype error = NonFinite

definition divide_num :: "rat \<Rightarrow> rat \<Rightarrow> error + rat" where
  "divide_num a b = (if b = 0 then Inl NonFinite else Inr (a / b))"

definition bindE :: "error + 'a \<Rightarrow> ('a \<Rightarrow> error + 'b) \<Rightarrow> error + 'b" where
  "bindE m f = (case m of Inl e \<Rightarrow> Inl e | Inr x \<Rightarrow> f x)"

definition mathRound :: "rat \<Rightarrow> int" where
  "mathRound x = \<lfloor>x + 1 / 2\<rfloor>"

definition round1 :: "rat \<Rightarrow> rat" where
  \<comment> \<open>\<^verbatim>\<open>Math.round(x * 10) / 10\<close>\<close>
  "round1 x = of_int (mathRound (x * 10)) / 10"

subsection \<open>The scorer: normalisation\<close>

definition normalizeAnswer :: "string \<Rightarrow> string" where
  \<comment> \<open>\<^verbatim>\<open>answerText.toLowerCase().trim()\<close>\<close>
  "normalizeAnswer answerText = trim (toLowerCase answerText)"

definition words :: "string \<Rightarrow> string list" where
  \<comment> \<open>\<^verbatim>\<open>answer.split(/\s+/).filter(w => w.length > 0)\<close>\<close>
  "words answer = filter (\<lambda>w. length w > 0) (splitRe isSpace answer)"

definition isSentenceEnd :: "char \<Rightarrow> bool" where
  "isSentenceEnd c = (c \<in> set ''.!?'')"

definition sentences :: "string \<Rightarrow> string list" where
  \<comment> \<open>\<^verbatim>\<open>answer.split(/[.!?]+/).filter(s => s.trim().length > 0)\<close>\<close>
  "sentences answer = filter (\<lambda>s. length (trim s) > 0) (splitRe isSentenceEnd answer)"

subsection \<open>The scorer: the four dimensions\<close>

definition matchedKeywords :: "string \<Rightarrow> string list \<Rightarrow> string list" where
  "matchedKeywords answer expectedKeywords =
     filter (\<lambda>kw. includes_str answer (toLowerCase kw)) expectedKeywords"

definition keywordRatio :: "string \<Rightarrow> string list \<Rightarrow> error + rat" where
  "keywordRatio answer expectedKeywords =
     (if length expectedKeywords > 0
      then divide_num (of_nat (length (matchedKeywords answer expectedKeywords)))
                      (of_nat (length expectedKeywords))
      else Inr 0)"

definition lengthScore :: "nat \<Rightarrow> rat \<Rightarrow> error + rat" where
  "lengthScore wordCount idealLength =
     (if of_nat wordCount < idealLength * (1 / 2)
      then bindE (divide_num (of_nat wordCount) (idealLength * (1 / 2))) (\<lambda>q. Inr (q * 6))
      else if of_nat wordCount > idealLength * 2 then Inr 7
      else if of_nat wordCount \<ge> idealLength * (4 / 5) \<and> of_nat wordCount \<le> idealLength * (3 / 2)
      then Inr 10
      else Inr 8)"

definition bulletMarker :: string where
  \<comment> \<open>the second list marker, byte for byte as the source file has it\<close>
  "bulletMarker = [CHR 0xC3, CHR 0xA2, CHR 0xE2, CHR 0x82, CHR 0xAC, CHR 0xC2, CHR 0xA2]"

definition transitionWords :: "string list" where
  "transitionWords = [''first'', ''second'', ''then'', ''next'', ''finally'', ''however'',
     ''therefore'', ''because'', ''for example'']"

definition hasTransitions :: "string \<Rightarrow> bool" where
  "hasTransitions answer = list_ex (\<lambda>tw. includes_str answer tw) transitionWords"

definition structureScore :: "string \<Rightarrow> nat \<Rightarrow> rat" where
  \<comment> \<open>the second argument is \<^verbatim>\<open>sentences.length\<close>\<close>
  "structureScore answer nSentences =
     (let s0 = 5;
          s1 = (if nSentences \<ge> 3 then s0 + 2 else if nSentences \<ge> 2 then s0 + 1 else s0);
          s2 = (if includes_str answer ''-'' \<or> includes_str answer bulletMarker
                   \<or> includes_str answer ''1.'' then s1 + 2 else s1);
          s3 = (if hasTransitions answer then s2 + 1 else s2)
      in min 10 s3)"

definition avgSentenceLength :: "nat \<Rightarrow> nat \<Rightarrow> error + rat" where
  "avgSentenceLength wordCount nSentences =
     (if nSentences > 0 then divide_num (of_nat wordCount) (of_nat nSentences)
      else Inr (of_nat wordCount))"

definition fillerWords :: "string list" where
  "fillerWords = [''um'', ''uh'', ''like'', ''you know'', ''basically'', ''actually'']"

definition fillerCount :: "string \<Rightarrow> int" where
  \<comment> \<open>\<^verbatim>\<open>fillerWords.reduce((count, fw) => count + (answer.split(fw).length - 1), 0)\<close>\<close>
  "fillerCount answer =
     foldl (\<lambda>count fw. count + (int (length (split_str answer fw)) - 1)) 0 fillerWords"

definition clarityAfterSentenceLength :: "rat \<Rightarrow> rat" where
  \<comment> \<open>\<^verbatim>\<open>clarityScore\<close> after the sentence-length adjustment (source lines 72 to 80)\<close>
  "clarityAfterSentenceLength avg =
     (let c0 = 7
      in if avg \<ge> 10 \<and> avg \<le> 30 then c0 + 2 else if avg < 10 then c0 + 1 else c0)"

definition clarityScore :: "rat \<Rightarrow> int \<Rightarrow> rat" where
  \<comment> \<open>the final \<^verbatim>\<open>clarityScore\<close>, from \<^verbatim>\<open>avgSentenceLength\<close> and \<^verbatim>\<open>fillerCount\<close>\<close>
  "clarityScore avg fillers =
     (let c1 = clarityAfterSentenceLength avg;
          c2 = (if fillers = 0 then c1 + 1 else if fillers > 5 then c1 - 2 else c1)
      in max 0 (min 10 c2))"

definition totalScore :: "rat \<Rightarrow> rat \<Rightarrow> rat \<Rightarrow> rat \<Rightarrow> rat" where
  "totalScore keywordScore lengthSc structureSc claritySc =
     keywordScore * (2 / 5) + lengthSc * (1 / 5) + structureSc * (1 / 5) + claritySc * (1 / 5)"

subsection \<open>The scorer: feedback generation\<close>

text \<open>
  The source pushes onto three arrays, \<^verbatim>\<open>strengths\<close>, \<^verbatim>\<open>weaknesses\<close> and
  \<^verbatim>\<open>suggestions\<close>. The model passes the three lists through the four feedback blocks
  in the source's order; each block is the source's \<^verbatim>\<open>if / else if\<close> chain.
\<close>

type_synonym remarks = "string list \<times> string list \<times> string list"

definition keywordFeedback :: "string \<Rightarrow> string list \<Rightarrow> rat \<Rightarrow> remarks \<Rightarrow> remarks" where
  "keywordFeedback answer expectedKeywords kwRatio r =
     (case r of (st, wk, sg) \<Rightarrow>
        if kwRatio \<ge> 7 / 10
        then (st @ [''Covered most of the key technical concepts''], wk, sg)
        else if kwRatio \<ge> 2 / 5
        then (let missingKeywords =
                    filter (\<lambda>kw. \<not> includes_str answer (toLowerCase kw)) expectedKeywords
              in (st, wk @ [''Some important concepts were missing''],
                  if length missingKeywords > 0 \<and> length missingKeywords \<le> 3
                  then sg @ [''Consider discussing: '' @ join (take 3 missingKeywords) '', '']
                  else sg))
        else (st, wk @ [''Many key concepts were not addressed''],
              sg @ [''Review the fundamental concepts related to this topic'']))"

definition lengthFeedback :: "nat \<Rightarrow> rat \<Rightarrow> remarks \<Rightarrow> remarks" where
  "lengthFeedback wordCount idealLength r =
     (case r of (st, wk, sg) \<Rightarrow>
        if of_nat wordCount < idealLength * (1 / 2)
        then (st, wk @ [''Answer was too brief''],
              sg @ [''Provide more detail and examples in your response''])
        else if of_nat wordCount \<ge> idealLength * (4 / 5) \<and> of_nat wordCount \<le> idealLength * (3 / 2)
        then (st @ [''Good answer length with appropriate detail''], wk, sg)
        else if of_nat wordCount > idealLength * 2
        then (st, wk @ [''Answer was longer than necessary''],
              sg @ [''Try to be more concise while covering key points''])
        else (st, wk, sg))"

definition structureFeedback :: "rat \<Rightarrow> remarks \<Rightarrow> remarks" where
  "structureFeedback strScore r =
     (case r of (st, wk, sg) \<Rightarrow>
        if strScore \<ge> 8
        then (st @ [''Well-structured response with clear organization''], wk, sg)
        else if strScore < 6
        then (st, wk @ [''Answer could be better organized''],
              sg @ [''Use a structured approach: introduce the concept, explain details, give examples''])
        else (st, wk, sg))"

definition clarityFeedback :: "rat \<Rightarrow> int \<Rightarrow> remarks \<Rightarrow> remarks" where
  "clarityFeedback clScore fillers r =
     (case r of (st, wk, sg) \<Rightarrow>
        if clScore \<ge> 8
        then (st @ [''Clear and easy to understand explanation''], wk, sg)
        else if fillers > 3
        then (st, wk @ [''Too many filler words detected''],
              sg @ [''Practice speaking more directly without filler words''])
        else (st, wk, sg))"

definition generateFeedback ::
  "string \<Rightarrow> string list \<Rightarrow> rat \<Rightarrow> nat \<Rightarrow> rat \<Rightarrow> rat \<Rightarrow> rat \<Rightarrow> int \<Rightarrow> remarks" where
  \<comment> \<open>source lines 101 to 145: the three arrays start empty\<close>
  "generateFeedback answer expectedKeywords kwRatio wordCount idealLength strScore clScore fillers =
     clarityFeedback clScore fillers
       (structureFeedback strScore
         (lengthFeedback wordCount idealLength
           (keywordFeedback answer expectedKeywords kwRatio ([], [], []))))"

subsection \<open>The scorer\<close>

record Feedback =
  score :: rat
  technical_accuracy :: rat
  clarity :: rat
  "structure" :: rat
  strengths :: "string list"
  weaknesses :: "string list"
  suggestions :: "string list"

definition scoreAnswer :: "string \<Rightarrow> string list \<Rightarrow> rat \<Rightarrow> error + Feedback" where
  "scoreAnswer answerText expectedKeywords idealLength =
     (let answer = normalizeAnswer answerText;
          wordCount = length (words answer);
          nSentences = length (sentences answer)
      in bindE (keywordRatio answer expectedKeywords) (\<lambda>kwRatio.
         bindE (lengthScore wordCount idealLength) (\<lambda>lenScore.
         bindE (avgSentenceLength wordCount nSentences) (\<lambda>avg.
           let keywordScore = kwRatio * 10;
               strScore = structureScore answer nSentences;
               fillers = fillerCount answer;
               clScore = clarityScore avg fillers;
               r = generateFeedback answer expectedKeywords kwRatio wordCount idealLength
                     strScore clScore fillers
           in Inr \<lparr>score = round1 (totalScore keywordScore lenScore strScore clScore),
                   technical_accuracy = round1 keywordScore,
                   clarity = round1 clScore,
                   structure = round1 strScore,
                   strengths = fst r,
                   weaknesses = fst (snd r),
                   suggestions = snd (snd r)\<rparr>))))"

subsection \<open>Voice analytics\<close>

record VoiceMetrics =
  confidence_score :: int
  words_per_minute :: nat
  filler_word_count :: nat

definition transcriptWords :: "string \<Rightarrow> string list" where
  \<comment> \<open>\<^verbatim>\<open>answer.transcript.split(/\s+/).filter(Boolean)\<close>\<close>
  "transcriptWords transcript = filter (\<lambda>w. w \<noteq> []) (splitRe isSpace transcript)"

definition voiceFillerWords :: "string list" where
  "voiceFillerWords = [''um'', ''uh'', ''like'', ''you know'', ''basically'', ''actually'',
     ''literally'', ''so'', ''well'']"

definition removePunct :: "string \<Rightarrow> string" where
  \<comment> \<open>\<^verbatim>\<open>w.replace(/[.,!?]/g, '')\<close>\<close>
  "removePunct w = filter (\<lambda>c. c \<notin> set ''.,!?'') w"

definition fillerWordCount :: "string list \<Rightarrow> nat" where
  "fillerWordCount ws =
     length (filter (\<lambda>w. removePunct (toLowerCase w) \<in> set voiceFillerWords) ws)"

definition rateScore :: "nat \<Rightarrow> rat" where
  "rateScore wordsPerMinute = max 0 (100 - \<bar>of_nat wordsPerMinute - 135\<bar> * (1 / 2))"

definition fillerRatio :: "nat \<Rightarrow> nat \<Rightarrow> error + rat" where
  "fillerRatio nFillers wordCount = divide_num (of_nat nFillers) (of_nat (max wordCount 1))"

definition fillerScore :: "rat \<Rightarrow> rat" where
  "fillerScore ratio = max 0 (100 - ratio * 500)"

definition confidenceScore :: "rat \<Rightarrow> rat \<Rightarrow> rat \<Rightarrow> int" where
  "confidenceScore rate filler clarityIn =
     mathRound (rate * (2 / 5) + filler * (3 / 10) + clarityIn * 10 * (3 / 10))"

definition voiceAnalytics :: "string option \<Rightarrow> rat \<Rightarrow> error + VoiceMetrics" where
  \<comment> \<open>the transcript column (null or a string) and \<^verbatim>\<open>feedback.clarity\<close>;
      \<^verbatim>\<open>if (answer.transcript)\<close> holds for a non-empty string\<close>
  "voiceAnalytics transcript clarityIn =
     (case transcript of
        None \<Rightarrow> Inr \<lparr>confidence_score = 70, words_per_minute = 0, filler_word_count = 0\<rparr>
      | Some t \<Rightarrow>
          if t = [] then Inr \<lparr>confidence_score = 70, words_per_minute = 0, filler_word_count = 0\<rparr>
          else
            (let ws = transcriptWords t;
                 wordCount = length ws;
                 wordsPerMinute = wordCount * 2;
                 nFillers = fillerWordCount ws
             in bindE (fillerRatio nFillers wordCount) (\<lambda>ratio.
                  Inr \<lparr>confidence_score =
                          confidenceScore (rateScore wordsPerMinute) (fillerScore ratio) clarityIn,
                       words_per_minute = wordsPerMinute,
                       filler_word_count = nFillers\<rparr>)))"

subsection \<open>Inputs of the scenarios\<close>

text \<open>The concrete answers and transcripts at which the scorer is evaluated below.\<close>

definition binarySearchAnswer :: string where
  "binarySearchAnswer = ''Binary search works by repeatedly dividing the sorted array in half. First compare the middle element, then recurse into the correct half. For example, searching for 7 in [1,3,5,7,9] takes log2(5) steps.''"

definition binarySearchKeywords :: "string list" where
  "binarySearchKeywords = [''binary search'', ''divide'', ''sorted'', ''logarithmic'']"


definition sixUmAnswer :: string where
  "sixUmAnswer = ''Um a queue um is um first in um first out um okay um.''"

definition sixUmRemoved :: string where
  "sixUmRemoved = ''A queue is first in first out okay.''"

definition fillerAnswer :: string where
  "fillerAnswer = ''Um, like, a stack is, um, like a pile.''"

definition leadingDotsTranscript :: string where
  "leadingDotsTranscript = ''and ...so it works''"

subsection \<open>The filler count as the specification words it\<close>

text \<open>
  The specification describes the voice filler count as stripping \<^emph>\<open>trailing\<close>
  punctuation from each token. \<open>trailingFillerWordCount\<close> is that reading, with the
  same four punctuation characters; it is compared with the code's \<open>fillerWordCount\<close>
  below. \<open>oneWordFillers\<close> is the code's filler list without its one entry that
  contains a space.
\<close>

definition stripTrailingPunct :: "string \<Rightarrow> string" where
  "stripTrailingPunct w = rev (dropWhile (\<lambda>c. c \<in> set ''.,!?'') (rev w))"

definition trailingFillerWordCount :: "string list \<Rightarrow> nat" where
  "trailingFillerWordCount ws =
     length (filter (\<lambda>w. stripTrailingPunct (toLowerCase w) \<in> set voiceFillerWords) ws)"

definition oneWordFillers :: "string list" where
  "oneWordFillers =
     [''um'', ''uh'', ''like'', ''basically'', ''actually'', ''literally'', ''so'', ''well'']"

section \<open>Properties\<close>

subsection \<open>Arithmetic of the dimensions\<close>

lemma bindE_Inr: "bindE (Inr x) f = f x"
  by (simp add: bindE_def)

lemma matched_le: "length (matchedKeywords answer ks) \<le> length ks"
  by (simp add: matchedKeywords_def)

lemma keywordRatio_value:
  "keywordRatio answer ks =
     Inr (if ks = [] then 0 else of_nat (length (matchedKeywords answer ks)) / of_nat (length ks))"
  by (simp add: keywordRatio_def divide_num_def)

lemma keywordRatio_range:
  assumes "keywordRatio answer ks = Inr r"
  shows "0 \<le> r \<and> r \<le> 1"
proof (cases "ks = []")
  case True
  with assms show ?thesis by (simp add: keywordRatio_value)
next
  case False
  then have pos: "(0::rat) < of_nat (length ks)" by simp
  have le: "(of_nat (length (matchedKeywords answer ks)) :: rat) \<le> of_nat (length ks)"
    using matched_le [of answer ks] by (simp only: of_nat_le_iff)
  from assms False have r: "r = of_nat (length (matchedKeywords answer ks)) / of_nat (length ks)"
    by (simp add: keywordRatio_value)
  show ?thesis unfolding r using pos le by (simp add: divide_le_eq)
qed

lemma lengthScore_total: "\<exists>l. lengthScore w i = Inr l \<and> 0 \<le> l \<and> l \<le> 10"
proof (cases "of_nat w < i * (1 / 2)")
  case True
  have w0: "(0::rat) \<le> of_nat w" by simp
  from True w0 have pos: "0 < i * (1 / 2)" by linarith
  then have ls: "lengthScore w i = Inr (of_nat w / (i * (1 / 2)) * 6)"
    using True by (simp add: lengthScore_def divide_num_def bindE_def)
  have q0: "0 \<le> of_nat w / (i * (1 / 2))" using w0 pos by (intro divide_nonneg_pos)
  have q1: "of_nat w / (i * (1 / 2)) \<le> 1"
    using True pos by (simp only: divide_le_eq_1_pos less_imp_le)
  show ?thesis unfolding ls using q0 q1 by auto
next
  case False
  then show ?thesis by (simp add: lengthScore_def)
qed

lemma avgSentenceLength_value:
  "avgSentenceLength w n = Inr (if n = 0 then of_nat w else of_nat w / of_nat n)"
  by (simp add: avgSentenceLength_def divide_num_def)

lemma structureScore_range: "5 \<le> structureScore answer n \<and> structureScore answer n \<le> 10"
  by (simp add: structureScore_def Let_def)

lemma clarityAfterSentenceLength_range:
  "7 \<le> clarityAfterSentenceLength avg \<and> clarityAfterSentenceLength avg \<le> 9"
  by (simp add: clarityAfterSentenceLength_def Let_def)

lemma clarityScore_range: "5 \<le> clarityScore avg f \<and> clarityScore avg f \<le> 10"
  using clarityAfterSentenceLength_range [of avg]
  by (simp add: clarityScore_def Let_def)

lemma mathRound_mono: "x \<le> y \<Longrightarrow> mathRound x \<le> mathRound y"
  by (simp add: mathRound_def floor_mono)

lemma mathRound_of_int: "mathRound (of_int n) = n"
  unfolding mathRound_def by linarith

lemma round1_mono: "x \<le> y \<Longrightarrow> round1 x \<le> round1 y"
  by (simp add: round1_def mathRound_mono divide_right_mono)

lemma round1_tenth: "round1 (of_int n / 10) = of_int n / 10"
  by (simp add: round1_def mathRound_of_int)

lemma round1_0: "round1 0 = 0"
  using round1_tenth [of 0] by simp

lemma round1_2: "round1 2 = 2"
  using round1_tenth [of 20] by simp

lemma round1_5: "round1 5 = 5"
  using round1_tenth [of 50] by simp

lemma round1_10: "round1 10 = 10"
  using round1_tenth [of 100] by simp

lemma round1_range:
  "lo \<in> {0, 2, 5} \<Longrightarrow> lo \<le> x \<Longrightarrow> x \<le> 10 \<Longrightarrow> lo \<le> round1 x \<and> round1 x \<le> 10"
  using round1_mono [of x 10] round1_mono [of lo x]
  by (auto simp: round1_0 round1_2 round1_5 round1_10)

lemma totalScore_mono: "k \<le> k' \<Longrightarrow> totalScore k l s c \<le> totalScore k' l s c"
  by (simp add: totalScore_def)

lemma totalScore_range:
  assumes "0 \<le> k" "k \<le> 10" "0 \<le> l" "l \<le> 10" "5 \<le> s" "s \<le> 10" "5 \<le> c" "c \<le> 10"
  shows "2 \<le> totalScore k l s c \<and> totalScore k l s c \<le> 10"
  using assms unfolding totalScore_def by linarith

subsection \<open>The scorer returns the record of its return statement\<close>

lemma scoreAnswer_result:
  obtains (Result) kr ls av where
    "keywordRatio (normalizeAnswer a) ks = Inr kr"
    "lengthScore (length (words (normalizeAnswer a))) i = Inr ls"
    "avgSentenceLength (length (words (normalizeAnswer a)))
       (length (sentences (normalizeAnswer a))) = Inr av"
    "0 \<le> kr" "kr \<le> 1" "0 \<le> ls" "ls \<le> 10"
    "scoreAnswer a ks i =
       Inr \<lparr>score = round1 (totalScore (kr * 10) ls
                        (structureScore (normalizeAnswer a) (length (sentences (normalizeAnswer a))))
                        (clarityScore av (fillerCount (normalizeAnswer a)))),
            technical_accuracy = round1 (kr * 10),
            clarity = round1 (clarityScore av (fillerCount (normalizeAnswer a))),
            structure =
              round1 (structureScore (normalizeAnswer a) (length (sentences (normalizeAnswer a)))),
            strengths = fst (generateFeedback (normalizeAnswer a) ks kr
              (length (words (normalizeAnswer a))) i
              (structureScore (normalizeAnswer a) (length (sentences (normalizeAnswer a))))
              (clarityScore av (fillerCount (normalizeAnswer a))) (fillerCount (normalizeAnswer a))),
            weaknesses = fst (snd (generateFeedback (normalizeAnswer a) ks kr
              (length (words (normalizeAnswer a))) i
              (structureScore (normalizeAnswer a) (length (sentences (normalizeAnswer a))))
              (clarityScore av (fillerCount (normalizeAnswer a))) (fillerCount (normalizeAnswer a)))),
            suggestions = snd (snd (generateFeedback (normalizeAnswer a) ks kr
              (length (words (normalizeAnswer a))) i
              (structureScore (normalizeAnswer a) (length (sentences (normalizeAnswer a))))
              (clarityScore av (fillerCount (normalizeAnswer a))) (fillerCount (normalizeAnswer a))))\<rparr>"
proof -
  obtain kr where kr: "keywordRatio (normalizeAnswer a) ks = Inr kr"
    by (simp add: keywordRatio_value)
  obtain ls where ls: "lengthScore (length (words (normalizeAnswer a))) i = Inr ls"
      "0 \<le> ls" "ls \<le> 10"
    using lengthScore_total by blast
  obtain av where av: "avgSentenceLength (length (words (normalizeAnswer a)))
      (length (sentences (normalizeAnswer a))) = Inr av"
    by (simp add: avgSentenceLength_value)
  show thesis
    using keywordRatio_range [OF kr]
    by (intro that [OF kr ls(1) av]) (simp_all add: ls scoreAnswer_def Let_def kr av bindE_Inr)
qed

subsection \<open>The voice estimate stays in range\<close>

lemma rateScore_range: "0 \<le> rateScore w \<and> rateScore w \<le> 100"
  by (simp add: rateScore_def)

lemma fillerRatio_value: "fillerRatio f w = Inr (of_nat f / of_nat (max w 1))"
  by (simp add: fillerRatio_def divide_num_def max_def)

lemma fillerScore_range: "0 \<le> r \<Longrightarrow> 0 \<le> fillerScore r \<and> fillerScore r \<le> 100"
  by (simp add: fillerScore_def)

lemma confidenceScore_range:
  assumes "0 \<le> r" "r \<le> 100" "0 \<le> f" "f \<le> 100" "0 \<le> c" "c \<le> 10"
  shows "0 \<le> confidenceScore r f c \<and> confidenceScore r f c \<le> 100"
proof -
  let ?x = "r * (2 / 5) + f * (3 / 10) + c * 10 * (3 / 10)"
  from assms have "0 \<le> ?x" and "?x \<le> 100" by linarith+
  then have "mathRound 0 \<le> mathRound ?x" and "mathRound ?x \<le> mathRound 100"
    by (simp_all only: mathRound_mono)
  moreover have "mathRound 0 = 0" using mathRound_of_int [of 0] by simp
  moreover have "mathRound 100 = 100" using mathRound_of_int [of 100] by simp
  ultimately show ?thesis by (simp add: confidenceScore_def)
qed

lemma voiceAnalytics_range:
  assumes "0 \<le> c" "c \<le> 10"
  shows "\<exists>vm. voiceAnalytics t c = Inr vm \<and> 0 \<le> confidence_score vm \<and> confidence_score vm \<le> 100"
proof (cases "t = None \<or> t = Some []")
  case True
  then show ?thesis by (auto simp: voiceAnalytics_def)
next
  case False
  then obtain s where t: "t = Some s" "s \<noteq> []" by (cases t) auto
  let ?ws = "transcriptWords s"
  let ?ratio = "(of_nat (fillerWordCount ?ws) :: rat) / of_nat (max (length ?ws) 1)"
  have r0: "0 \<le> ?ratio" by simp
  have eq: "voiceAnalytics t c =
      Inr \<lparr>confidence_score = confidenceScore (rateScore (length ?ws * 2)) (fillerScore ?ratio) c,
           words_per_minute = length ?ws * 2, filler_word_count = fillerWordCount ?ws\<rparr>"
    using t by (simp add: voiceAnalytics_def Let_def fillerRatio_value bindE_Inr)
  show ?thesis unfolding eq
    using confidenceScore_range [OF _ _ _ _ assms, of "rateScore (length ?ws * 2)" "fillerScore ?ratio"]
      rateScore_range [of "length ?ws * 2"] fillerScore_range [OF r0]
    by simp
qed

subsection \<open>Ranges of the outputs\<close>

text \<open>
  Claim C1. For every answer text, every list of expected keywords and every ideal length,
  the scorer returns a record whose \<open>score\<close>, \<open>technical_accuracy\<close>, \<open>clarity\<close> and
  \<open>structure\<close> all lie between 0 and 10; and whenever the clarity passed to the voice
  analytics lies between 0 and 10, the confidence score it computes (for any transcript,
  present or not) lies between 0 and 100.
\<close>

theorem scorer_outputs_in_range:
  "(\<exists>fb. scoreAnswer a ks i = Inr fb
      \<and> 0 \<le> score fb \<and> score fb \<le> 10
      \<and> 0 \<le> technical_accuracy fb \<and> technical_accuracy fb \<le> 10
      \<and> 0 \<le> clarity fb \<and> clarity fb \<le> 10
      \<and> 0 \<le> structure fb \<and> structure fb \<le> 10)
   \<and> (0 \<le> c \<and> c \<le> 10 \<longrightarrow>
        (\<exists>vm. voiceAnalytics t c = Inr vm
           \<and> 0 \<le> confidence_score vm \<and> confidence_score vm \<le> 100))"
proof (intro conjI impI)
  show "\<exists>fb. scoreAnswer a ks i = Inr fb
      \<and> 0 \<le> score fb \<and> score fb \<le> 10
      \<and> 0 \<le> technical_accuracy fb \<and> technical_accuracy fb \<le> 10
      \<and> 0 \<le> clarity fb \<and> clarity fb \<le> 10
      \<and> 0 \<le> structure fb \<and> structure fb \<le> 10"
  proof (cases rule: scoreAnswer_result [of a ks i])
    case (Result kr ls av)
    let ?s = "structureScore (normalizeAnswer a) (length (sentences (normalizeAnswer a)))"
    let ?c = "clarityScore av (fillerCount (normalizeAnswer a))"
    from Result have k: "0 \<le> kr * 10" "kr * 10 \<le> 10" by simp_all
    have s: "5 \<le> ?s" "?s \<le> 10" using structureScore_range by simp_all
    have c: "5 \<le> ?c" "?c \<le> 10" using clarityScore_range by simp_all
    have t: "2 \<le> totalScore (kr * 10) ls ?s ?c" "totalScore (kr * 10) ls ?s ?c \<le> 10"
      using totalScore_range [OF k Result(6,7) s c] by simp_all
    have "0 \<le> round1 (totalScore (kr * 10) ls ?s ?c) \<and> round1 (totalScore (kr * 10) ls ?s ?c) \<le> 10"
      using t by (intro round1_range) simp_all
    moreover have "0 \<le> round1 (kr * 10) \<and> round1 (kr * 10) \<le> 10"
      using k by (intro round1_range) simp_all
    moreover have "0 \<le> round1 ?c \<and> round1 ?c \<le> 10"
      using c by (intro round1_range) simp_all
    moreover have "0 \<le> round1 ?s \<and> round1 ?s \<le> 10"
      using s by (intro round1_range) simp_all
    ultimately show ?thesis unfolding Result(8) by simp
  qed
next
  assume "0 \<le> c \<and> c \<le> 10"
  then show "\<exists>vm. voiceAnalytics t c = Inr vm
           \<and> 0 \<le> confidence_score vm \<and> confidence_score vm \<le> 100"
    using voiceAnalytics_range [of c t] by simp
qed

theorem scorer_outputs_in_range_witness:
  "(\<exists>fb. scoreAnswer ''Um, first sort. Then search!'' [''sort'', ''heap''] 10 = Inr fb
      \<and> 0 \<le> score fb \<and> score fb \<le> 10
      \<and> 0 \<le> technical_accuracy fb \<and> technical_accuracy fb \<le> 10
      \<and> 0 \<le> clarity fb \<and> clarity fb \<le> 10
      \<and> 0 \<le> structure fb \<and> structure fb \<le> 10)
   \<and> (\<exists>vm. voiceAnalytics (Some ''Um, first sort. Then search!'') 8 = Inr vm
           \<and> 0 \<le> confidence_score vm \<and> confidence_score vm \<le> 100)"
  using scorer_outputs_in_range [of "''Um, first sort. Then search!''" "[''sort'', ''heap'']" 10 8
      "Some ''Um, first sort. Then search!''"]
  by simp

text \<open>
  Claim C9. The scorer is total: for every answer text (the empty one included), every
  keyword list and every ideal length (positive or not), it returns a record, never the
  error of a division by zero; each of its three divisions (the keyword ratio, the length
  ramp, the average sentence length) yields a value.
\<close>

theorem scorer_total:
  "(\<exists>fb. scoreAnswer a ks i = Inr fb)
   \<and> (\<exists>r. keywordRatio (normalizeAnswer a) ks = Inr r)
   \<and> (\<exists>l. lengthScore (length (words (normalizeAnswer a))) i = Inr l)
   \<and> (\<exists>v. avgSentenceLength (length (words (normalizeAnswer a)))
             (length (sentences (normalizeAnswer a))) = Inr v)"
  by (cases rule: scoreAnswer_result [of a ks i]) simp

text \<open>
  Claim C10. The structure score and the clarity score always lie between 5 and 10, they
  are returned as such, and the total score returned is never below 2.
\<close>

theorem score_at_least_two:
  "5 \<le> structureScore answer n \<and> structureScore answer n \<le> 10
   \<and> 5 \<le> clarityScore avg f \<and> clarityScore avg f \<le> 10
   \<and> (\<exists>fb. scoreAnswer a ks i = Inr fb
         \<and> 5 \<le> structure fb \<and> structure fb \<le> 10
         \<and> 5 \<le> clarity fb \<and> clarity fb \<le> 10
         \<and> 2 \<le> score fb)"
proof (intro conjI)
  show "\<exists>fb. scoreAnswer a ks i = Inr fb
         \<and> 5 \<le> structure fb \<and> structure fb \<le> 10
         \<and> 5 \<le> clarity fb \<and> clarity fb \<le> 10
         \<and> 2 \<le> score fb"
  proof (cases rule: scoreAnswer_result [of a ks i])
    case (Result kr ls av)
    let ?s = "structureScore (normalizeAnswer a) (length (sentences (normalizeAnswer a)))"
    let ?c = "clarityScore av (fillerCount (normalizeAnswer a))"
    from Result have k: "0 \<le> kr * 10" "kr * 10 \<le> 10" by simp_all
    have s: "5 \<le> ?s" "?s \<le> 10" using structureScore_range by simp_all
    have c: "5 \<le> ?c" "?c \<le> 10" using clarityScore_range by simp_all
    have t: "2 \<le> totalScore (kr * 10) ls ?s ?c" "totalScore (kr * 10) ls ?s ?c \<le> 10"
      using totalScore_range [OF k Result(6,7) s c] by simp_all
    have "2 \<le> round1 (totalScore (kr * 10) ls ?s ?c) \<and> round1 (totalScore (kr * 10) ls ?s ?c) \<le> 10"
      using t by (intro round1_range) simp_all
    moreover have "5 \<le> round1 ?c \<and> round1 ?c \<le> 10"
      using c by (intro round1_range) simp_all
    moreover have "5 \<le> round1 ?s \<and> round1 ?s \<le> 10"
      using s by (intro round1_range) simp_all
    ultimately show ?thesis unfolding Result(8) by simp
  qed
qed (simp_all add: structureScore_range clarityScore_range)

subsection \<open>Monotonicity in the matched keywords\<close>

text \<open>
  Claim C3. Fix the answer text and the ideal length, and take two keyword lists of the
  same length. If the second has at least as many keywords matched in the normalised
  answer as the first, then its \<open>technical_accuracy\<close> and its total \<open>score\<close> are at
  least those of the first.
\<close>

theorem more_matches_never_lower:
  assumes "length ks1 = length ks2"
    and "length (matchedKeywords (normalizeAnswer a) ks1)
           \<le> length (matchedKeywords (normalizeAnswer a) ks2)"
  shows "\<exists>f1 f2. scoreAnswer a ks1 i = Inr f1 \<and> scoreAnswer a ks2 i = Inr f2
           \<and> technical_accuracy f1 \<le> technical_accuracy f2 \<and> score f1 \<le> score f2"
proof (cases rule: scoreAnswer_result [of a ks1 i])
  case R1: (Result kr1 ls1 av1)
  show ?thesis
  proof (cases rule: scoreAnswer_result [of a ks2 i])
    case R2: (Result kr2 ls2 av2)
    from R1(2) R2(2) have ls: "ls2 = ls1" by simp
    from R1(3) R2(3) have av: "av2 = av1" by simp
    have kr1: "kr1 = (if ks1 = [] then 0
        else of_nat (length (matchedKeywords (normalizeAnswer a) ks1)) / of_nat (length ks1))"
      using R1(1) by (simp add: keywordRatio_value)
    have kr2: "kr2 = (if ks2 = [] then 0
        else of_nat (length (matchedKeywords (normalizeAnswer a) ks2)) / of_nat (length ks2))"
      using R2(1) by (simp add: keywordRatio_value)
    have "kr1 \<le> kr2"
    proof (cases "ks1 = []")
      case True
      with assms(1) show ?thesis by (simp add: kr1 kr2)
    next
      case False
      with assms(1) have ne: "ks2 \<noteq> []" by auto
      have "(of_nat (length (matchedKeywords (normalizeAnswer a) ks1)) :: rat)
              \<le> of_nat (length (matchedKeywords (normalizeAnswer a) ks2))"
        using assms(2) by (simp only: of_nat_le_iff)
      then show ?thesis using False ne by (simp add: kr1 kr2 assms(1) divide_right_mono)
    qed
    then have k: "kr1 * 10 \<le> kr2 * 10" by simp
    have "round1 (kr1 * 10) \<le> round1 (kr2 * 10)" using k by (rule round1_mono)
    moreover have "round1 (totalScore (kr1 * 10) ls1
          (structureScore (normalizeAnswer a) (length (sentences (normalizeAnswer a))))
          (clarityScore av1 (fillerCount (normalizeAnswer a))))
       \<le> round1 (totalScore (kr2 * 10) ls1
          (structureScore (normalizeAnswer a) (length (sentences (normalizeAnswer a))))
          (clarityScore av1 (fillerCount (normalizeAnswer a))))"
      using k by (intro round1_mono totalScore_mono)
    ultimately show ?thesis unfolding R1(8) R2(8) ls av by simp
  qed
qed

theorem more_matches_never_lower_witness:
  "length [''heap'', ''sort''] = length [''sort'', ''array'']
   \<and> length (matchedKeywords (normalizeAnswer ''Sort the array first'') [''heap'', ''sort''])
       \<le> length (matchedKeywords (normalizeAnswer ''Sort the array first'') [''sort'', ''array''])
   \<and> (\<exists>f1 f2. scoreAnswer ''Sort the array first'' [''heap'', ''sort''] 10 = Inr f1
         \<and> scoreAnswer ''Sort the array first'' [''sort'', ''array''] 10 = Inr f2
         \<and> technical_accuracy f1 \<le> technical_accuracy f2 \<and> score f1 \<le> score f2)"
proof -
  have h1: "length [''heap'', ''sort''] = length [''sort'', ''array'']"
    by simp
  have h2: "length (matchedKeywords (normalizeAnswer ''Sort the array first'') [''heap'', ''sort''])
       \<le> length (matchedKeywords (normalizeAnswer ''Sort the array first'') [''sort'', ''array''])"
    by code_simp
  show ?thesis
    using h1 h2 more_matches_never_lower [OF h1 h2, of 10] by blast
qed

subsection \<open>The binary search scenario\<close>

lemma binarySearch_matched:
  "matchedKeywords (normalizeAnswer binarySearchAnswer) binarySearchKeywords
     = [''binary search'', ''sorted'']"
  by code_simp

lemma binarySearch_ratio:
  "keywordRatio (normalizeAnswer binarySearchAnswer) binarySearchKeywords = Inr (1 / 2)"
  by code_simp

lemma binarySearch_words: "length (words (normalizeAnswer binarySearchAnswer)) = 32"
  by code_simp

lemma binarySearch_result:
  "scoreAnswer binarySearchAnswer binarySearchKeywords 40 =
     Inr \<lparr>score = 38 / 5, technical_accuracy = 5, clarity = 10, structure = 8,
          strengths = [''Good answer length with appropriate detail'',
                       ''Well-structured response with clear organization'',
                       ''Clear and easy to understand explanation''],
          weaknesses = [''Some important concepts were missing''],
          suggestions = [''Consider discussing: divide, logarithmic'']\<rparr>"
  by code_simp

text \<open>
  Claim C2, as stated, fails. On the binary search answer with the keywords
  \<open>binary search\<close>, \<open>divide\<close>, \<open>sorted\<close>, \<open>logarithmic\<close> and ideal length 40, the
  scorer does not match three keywords: the answer has the word \<open>dividing\<close>, which does
  not contain \<open>divide\<close>. So the keyword ratio is not 3/4, the total score is below 8.2,
  and the strength about covering most key concepts is not among the strengths.
\<close>

theorem binary_search_scenario_counterexample:
  "length (matchedKeywords (normalizeAnswer binarySearchAnswer) binarySearchKeywords) \<noteq> 3
   \<and> ''divide'' \<notin> set (matchedKeywords (normalizeAnswer binarySearchAnswer) binarySearchKeywords)
   \<and> keywordRatio (normalizeAnswer binarySearchAnswer) binarySearchKeywords \<noteq> Inr (3 / 4)
   \<and> score (projr (scoreAnswer binarySearchAnswer binarySearchKeywords 40)) < 41 / 5
   \<and> ''Covered most of the key technical concepts''
        \<notin> set (strengths (projr (scoreAnswer binarySearchAnswer binarySearchKeywords 40)))"
  by (simp add: binarySearch_result binarySearch_matched binarySearch_ratio)

text \<open>
  Claim C2, amended. On that input the scorer matches two of the four keywords
  (\<open>binary search\<close> and \<open>sorted\<close>), so the keyword ratio is 1/2 and the keyword score
  is 5; the answer has 32 words, inside the band from 32 to 60, so the length score is 10;
  the structure score is 8 and the clarity score 10; the total score is 7.6. The strengths
  are the good length, the clear organisation and the clear explanation; the only weakness
  is that some important concepts were missing, and the only suggestion names \<open>divide\<close>
  and \<open>logarithmic\<close>.
\<close>

theorem binary_search_scenario:
  "matchedKeywords (normalizeAnswer binarySearchAnswer) binarySearchKeywords
     = [''binary search'', ''sorted'']
   \<and> keywordRatio (normalizeAnswer binarySearchAnswer) binarySearchKeywords = Inr (1 / 2)
   \<and> length (words (normalizeAnswer binarySearchAnswer)) = 32
   \<and> lengthScore (length (words (normalizeAnswer binarySearchAnswer))) 40 = Inr 10
   \<and> scoreAnswer binarySearchAnswer binarySearchKeywords 40 =
       Inr \<lparr>score = 38 / 5, technical_accuracy = 5, clarity = 10, structure = 8,
            strengths = [''Good answer length with appropriate detail'',
                         ''Well-structured response with clear organization'',
                         ''Clear and easy to understand explanation''],
            weaknesses = [''Some important concepts were missing''],
            suggestions = [''Consider discussing: divide, logarithmic'']\<rparr>"
  by (simp add: binarySearch_result binarySearch_matched binarySearch_words binarySearch_ratio
      lengthScore_def)

subsection \<open>The voice scenario\<close>




subsection \<open>Filler words lower the clarity\<close>

lemma splitStr_nonempty: "splitStr sep acc s \<noteq> []"
  by (induction sep acc s rule: splitStr.induct) simp_all

lemma split_str_count_nonneg: "0 \<le> int (length (split_str s sep)) - 1"
  using splitStr_nonempty [of sep "[]" s]
  by (cases "splitStr sep [] s") (simp_all add: split_str_def)

lemma fillerCount_ge_um: "int (length (split_str answer ''um'')) - 1 \<le> fillerCount answer"
proof -
  have "fillerCount answer =
      (int (length (split_str answer ''um'')) - 1) + (int (length (split_str answer ''uh'')) - 1)
      + (int (length (split_str answer ''like'')) - 1)
      + (int (length (split_str answer ''you know'')) - 1)
      + (int (length (split_str answer ''basically'')) - 1)
      + (int (length (split_str answer ''actually'')) - 1)"
    by (simp add: fillerCount_def fillerWords_def)
  then show ?thesis
    using split_str_count_nonneg [of answer "''uh''"] split_str_count_nonneg [of answer "''like''"]
      split_str_count_nonneg [of answer "''you know''"]
      split_str_count_nonneg [of answer "''basically''"]
      split_str_count_nonneg [of answer "''actually''"]
    by linarith
qed

lemma clarityScore_many_fillers: "5 < f \<Longrightarrow> clarityScore avg f \<le> 7"
  using clarityAfterSentenceLength_range [of avg] by (simp add: clarityScore_def Let_def)

lemma clarityScore_no_fillers: "8 \<le> clarityScore avg 0"
  using clarityAfterSentenceLength_range [of avg] by (simp add: clarityScore_def Let_def)

lemma round1_7: "round1 7 = 7"
  using round1_tenth [of 70] by simp

lemma round1_8: "round1 8 = 8"
  using round1_tenth [of 80] by simp

text \<open>
  Claim C7. If the normalised answer \<open>a\<close> has 6 occurrences of \<open>um\<close> (as the scorer
  counts them, \<^verbatim>\<open>split('um').length - 1\<close>) and the normalised answer \<open>b\<close> has no filler
  occurrence at all, then the clarity returned for \<open>a\<close> is strictly below the clarity
  returned for \<open>b\<close>, with the same keywords and ideal length. This holds for any such
  \<open>b\<close>, in particular for \<open>a\<close> with its filler words removed, whatever the sentence
  lengths of the two.
\<close>

theorem six_um_lower_clarity:
  assumes "int (length (split_str (normalizeAnswer a) ''um'')) - 1 = 6"
    and "fillerCount (normalizeAnswer b) = 0"
  shows "\<exists>fa fb. scoreAnswer a ks i = Inr fa \<and> scoreAnswer b ks i = Inr fb
           \<and> clarity fa < clarity fb"
proof (cases rule: scoreAnswer_result [of a ks i])
  case A: (Result kra lsa ava)
  show ?thesis
  proof (cases rule: scoreAnswer_result [of b ks i])
    case B: (Result krb lsb avb)
    have "5 < fillerCount (normalizeAnswer a)"
      using fillerCount_ge_um [of "normalizeAnswer a"] assms(1) by simp
    then have "clarityScore ava (fillerCount (normalizeAnswer a)) \<le> 7"
      by (rule clarityScore_many_fillers)
    then have a7: "round1 (clarityScore ava (fillerCount (normalizeAnswer a))) \<le> 7"
      using round1_mono [of _ 7] by (simp add: round1_7)
    have "8 \<le> clarityScore avb (fillerCount (normalizeAnswer b))"
      unfolding assms(2) by (rule clarityScore_no_fillers)
    then have b8: "8 \<le> round1 (clarityScore avb (fillerCount (normalizeAnswer b)))"
      using round1_mono [of 8] by (simp add: round1_8)
    show ?thesis unfolding A(8) B(8) using a7 b8 by simp
  qed
qed

theorem six_um_lower_clarity_witness:
  "int (length (split_str (normalizeAnswer sixUmAnswer) ''um'')) - 1 = 6
   \<and> fillerCount (normalizeAnswer sixUmRemoved) = 0
   \<and> (\<exists>fa fb. scoreAnswer sixUmAnswer [''queue''] 20 = Inr fa
         \<and> scoreAnswer sixUmRemoved [''queue''] 20 = Inr fb \<and> clarity fa < clarity fb)"
proof -
  have h1: "int (length (split_str (normalizeAnswer sixUmAnswer) ''um'')) - 1 = 6"
    by code_simp
  have h2: "fillerCount (normalizeAnswer sixUmRemoved) = 0"
    by code_simp
  show ?thesis
    using h1 h2 six_um_lower_clarity [OF h1 h2, of "[''queue'']" 20] by blast
qed

subsection \<open>The clarity feedback\<close>

lemma keywordFeedback_strengths:
  "x \<noteq> ''Covered most of the key technical concepts''
   \<Longrightarrow> x \<in> set (fst (keywordFeedback a ks kr r)) \<longleftrightarrow> x \<in> set (fst r)"
  by (auto simp: keywordFeedback_def Let_def split: prod.splits)

lemma keywordFeedback_weaknesses:
  "y \<noteq> ''Some important concepts were missing''
   \<Longrightarrow> y \<noteq> ''Many key concepts were not addressed''
   \<Longrightarrow> y \<in> set (fst (snd (keywordFeedback a ks kr r))) \<longleftrightarrow> y \<in> set (fst (snd r))"
  by (auto simp: keywordFeedback_def Let_def split: prod.splits)

lemma keywordFeedback_suggestions:
  "z \<noteq> ''Review the fundamental concepts related to this topic''
   \<Longrightarrow> \<not> startsWith z ''Consider discussing: ''
   \<Longrightarrow> z \<in> set (snd (snd (keywordFeedback a ks kr r))) \<longleftrightarrow> z \<in> set (snd (snd r))"
  by (auto simp: keywordFeedback_def Let_def split: prod.splits)

lemma lengthFeedback_strengths:
  "x \<noteq> ''Good answer length with appropriate detail''
   \<Longrightarrow> x \<in> set (fst (lengthFeedback w i r)) \<longleftrightarrow> x \<in> set (fst r)"
  by (auto simp: lengthFeedback_def split: prod.splits)

lemma lengthFeedback_weaknesses:
  "y \<noteq> ''Answer was too brief'' \<Longrightarrow> y \<noteq> ''Answer was longer than necessary''
   \<Longrightarrow> y \<in> set (fst (snd (lengthFeedback w i r))) \<longleftrightarrow> y \<in> set (fst (snd r))"
  by (auto simp: lengthFeedback_def split: prod.splits)

lemma lengthFeedback_suggestions:
  "z \<noteq> ''Provide more detail and examples in your response''
   \<Longrightarrow> z \<noteq> ''Try to be more concise while covering key points''
   \<Longrightarrow> z \<in> set (snd (snd (lengthFeedback w i r))) \<longleftrightarrow> z \<in> set (snd (snd r))"
  by (auto simp: lengthFeedback_def split: prod.splits)

lemma structureFeedback_strengths:
  "x \<noteq> ''Well-structured response with clear organization''
   \<Longrightarrow> x \<in> set (fst (structureFeedback s r)) \<longleftrightarrow> x \<in> set (fst r)"
  by (auto simp: structureFeedback_def split: prod.splits)

lemma structureFeedback_weaknesses:
  "y \<noteq> ''Answer could be better organized''
   \<Longrightarrow> y \<in> set (fst (snd (structureFeedback s r))) \<longleftrightarrow> y \<in> set (fst (snd r))"
  by (auto simp: structureFeedback_def split: prod.splits)

lemma structureFeedback_suggestions:
  "z \<noteq> ''Use a structured approach: introduce the concept, explain details, give examples''
   \<Longrightarrow> z \<in> set (snd (snd (structureFeedback s r))) \<longleftrightarrow> z \<in> set (snd (snd r))"
  by (auto simp: structureFeedback_def split: prod.splits)

lemma clarityFeedback_members:
  "''Clear and easy to understand explanation'' \<in> set (fst (clarityFeedback c f r))
     \<longleftrightarrow> 8 \<le> c \<or> ''Clear and easy to understand explanation'' \<in> set (fst r)"
  "''Too many filler words detected'' \<in> set (fst (snd (clarityFeedback c f r)))
     \<longleftrightarrow> (c < 8 \<and> 3 < f) \<or> ''Too many filler words detected'' \<in> set (fst (snd r))"
  "''Practice speaking more directly without filler words'' \<in> set (snd (snd (clarityFeedback c f r)))
     \<longleftrightarrow> (c < 8 \<and> 3 < f)
        \<or> ''Practice speaking more directly without filler words'' \<in> set (snd (snd r))"
  by (auto simp: clarityFeedback_def split: prod.splits)

lemma generateFeedback_clarity_members:
  "''Clear and easy to understand explanation''
      \<in> set (fst (generateFeedback a ks kr w i s c f)) \<longleftrightarrow> 8 \<le> c"
  "''Too many filler words detected''
      \<in> set (fst (snd (generateFeedback a ks kr w i s c f))) \<longleftrightarrow> c < 8 \<and> 3 < f"
  "''Practice speaking more directly without filler words''
      \<in> set (snd (snd (generateFeedback a ks kr w i s c f))) \<longleftrightarrow> c < 8 \<and> 3 < f"
  unfolding generateFeedback_def clarityFeedback_members
  by (simp_all add: structureFeedback_strengths structureFeedback_weaknesses
      structureFeedback_suggestions lengthFeedback_strengths lengthFeedback_weaknesses
      lengthFeedback_suggestions keywordFeedback_strengths keywordFeedback_weaknesses
      keywordFeedback_suggestions)

lemma fillerAnswer_fillers: "fillerCount (normalizeAnswer fillerAnswer) = 4"
  by code_simp

lemma fillerAnswer_result:
  "scoreAnswer fillerAnswer [''stack''] 10 =
     Inr \<lparr>score = 43 / 5, technical_accuracy = 10, clarity = 8, structure = 5,
        strengths =
          [''Covered most of the key technical concepts'',
           ''Good answer length with appropriate detail'',
           ''Clear and easy to understand explanation''],
        weaknesses = [''Answer could be better organized''],
        suggestions =
          [''Use a structured approach: introduce the concept, explain details, give examples'']\<rparr>"
  by code_simp

text \<open>
  Claim C4, as stated, fails. The answer \<open>fillerAnswer\<close> has four filler occurrences
  (more than 3) and clarity score 8: the strength about a clear explanation is appended,
  and neither the weakness about filler words nor its suggestion is.
\<close>

theorem filler_feedback_counterexample:
  "3 < fillerCount (normalizeAnswer fillerAnswer)
   \<and> ''Clear and easy to understand explanation''
        \<in> set (strengths (projr (scoreAnswer fillerAnswer [''stack''] 10)))
   \<and> ''Too many filler words detected''
        \<notin> set (weaknesses (projr (scoreAnswer fillerAnswer [''stack''] 10)))
   \<and> ''Practice speaking more directly without filler words''
        \<notin> set (suggestions (projr (scoreAnswer fillerAnswer [''stack''] 10)))"
  by (simp add: fillerAnswer_fillers fillerAnswer_result)

text \<open>
  Claim C4, amended. In the clarity block the filler check is the \<^verbatim>\<open>else if\<close> branch of
  the clarity check. For every input, the weakness about filler words and the suggestion
  to practise speaking without them are in the output exactly when the filler count
  exceeds 3 and the clarity score is below 8; the strength about a clear explanation is
  in the output exactly when the clarity score is at least 8.
\<close>

theorem filler_feedback_is_else_branch:
  "\<exists>fb av. scoreAnswer a ks i = Inr fb
     \<and> avgSentenceLength (length (words (normalizeAnswer a)))
         (length (sentences (normalizeAnswer a))) = Inr av
     \<and> (''Too many filler words detected'' \<in> set (weaknesses fb)
          \<longleftrightarrow> clarityScore av (fillerCount (normalizeAnswer a)) < 8
              \<and> 3 < fillerCount (normalizeAnswer a))
     \<and> (''Practice speaking more directly without filler words'' \<in> set (suggestions fb)
          \<longleftrightarrow> clarityScore av (fillerCount (normalizeAnswer a)) < 8
              \<and> 3 < fillerCount (normalizeAnswer a))
     \<and> (''Clear and easy to understand explanation'' \<in> set (strengths fb)
          \<longleftrightarrow> 8 \<le> clarityScore av (fillerCount (normalizeAnswer a)))"
proof (cases rule: scoreAnswer_result [of a ks i])
  case (Result kr ls av)
  show ?thesis
    unfolding Result(8) Result(3)
    by (simp add: generateFeedback_clarity_members)
qed

subsection \<open>The empty answer\<close>

lemma normalizeAnswer_Nil: "normalizeAnswer [] = []"
  by (simp add: normalizeAnswer_def trim_def toLowerCase_def)

lemma words_Nil: "words [] = []"
  by (simp add: words_def)

lemma sentences_Nil: "sentences [] = []"
  by (simp add: sentences_def trim_def)

lemma fillerCount_Nil: "fillerCount [] = 0"
  by (simp add: fillerCount_def fillerWords_def split_str_def)

lemma structureScore_Nil: "structureScore [] 0 = 5"
  by (simp add: structureScore_def hasTransitions_def transitionWords_def bulletMarker_def)

lemma matchedKeywords_Nil: "[] \<notin> set ks \<Longrightarrow> matchedKeywords [] ks = []"
  by (induction ks) (auto simp: matchedKeywords_def toLowerCase_def)

lemma lengthScore_zero: "0 < i \<Longrightarrow> lengthScore 0 i = Inr 0"
  by (simp add: lengthScore_def divide_num_def bindE_def)

lemma round1_14_5: "round1 (14 / 5) = 14 / 5"
  using round1_tenth [of 28] by simp

lemma round1_9: "round1 9 = 9"
  using round1_tenth [of 90] by simp

lemma clarityScore_0_0: "clarityScore 0 0 = 9"
  by (simp add: clarityScore_def clarityAfterSentenceLength_def)

text \<open>
  Claim C5, as stated, fails in its last part. For the empty answer there are no
  sentences, the average sentence length is 0, and the clarity score after the
  sentence-length adjustment alone is 8; the clarity score the scorer uses is 9, because
  the empty answer also has no filler word and earns that bonus.
\<close>

theorem empty_answer_counterexample:
  "avgSentenceLength (length (words (normalizeAnswer [])))
      (length (sentences (normalizeAnswer []))) = Inr 0
   \<and> clarityAfterSentenceLength 0 = 8
   \<and> clarityScore 0 (fillerCount (normalizeAnswer [])) = 9
   \<and> clarityScore 0 (fillerCount (normalizeAnswer [])) \<noteq> clarityAfterSentenceLength 0"
  by (simp add: normalizeAnswer_Nil words_Nil sentences_Nil fillerCount_Nil clarityScore_0_0
      avgSentenceLength_value clarityAfterSentenceLength_def)

text \<open>
  Claim C5, amended. For the empty answer, keywords that are all non-empty and a positive
  ideal length: there are no words and no sentences, the keyword ratio and so the keyword
  score are 0, the length score is 0, the structure score is the base 5, and the clarity
  score is 9 (the base 7, plus 1 for an average sentence length below 10, plus 1 for no
  filler word). The record returned has technical accuracy 0, structure 5, clarity 9 and
  total score 2.8.
\<close>

theorem empty_answer_scores:
  assumes "[] \<notin> set ks" and "0 < i"
  shows "words (normalizeAnswer []) = []
    \<and> sentences (normalizeAnswer []) = []
    \<and> keywordRatio (normalizeAnswer []) ks = Inr 0
    \<and> lengthScore (length (words (normalizeAnswer []))) i = Inr 0
    \<and> structureScore (normalizeAnswer []) (length (sentences (normalizeAnswer []))) = 5
    \<and> fillerCount (normalizeAnswer []) = 0
    \<and> clarityScore 0 (fillerCount (normalizeAnswer [])) = 9
    \<and> (\<exists>fb. scoreAnswer [] ks i = Inr fb \<and> score fb = 14 / 5 \<and> technical_accuracy fb = 0
          \<and> clarity fb = 9 \<and> structure fb = 5)"
proof -
  have kr: "keywordRatio [] ks = Inr 0"
    using assms(1) by (simp add: keywordRatio_value matchedKeywords_Nil)
  have ls: "lengthScore 0 i = Inr 0" using assms(2) by (rule lengthScore_zero)
  have total: "totalScore 0 0 5 9 = 14 / 5" by (simp add: totalScore_def)
  have "\<exists>fb. scoreAnswer [] ks i = Inr fb \<and> score fb = 14 / 5 \<and> technical_accuracy fb = 0
          \<and> clarity fb = 9 \<and> structure fb = 5"
    by (simp add: scoreAnswer_def Let_def normalizeAnswer_Nil words_Nil sentences_Nil kr ls
        avgSentenceLength_value bindE_Inr fillerCount_Nil structureScore_Nil clarityScore_0_0
        total round1_14_5 round1_0 round1_9 round1_5)
  then show ?thesis
    by (simp add: normalizeAnswer_Nil words_Nil sentences_Nil kr ls fillerCount_Nil
        structureScore_Nil clarityScore_0_0)
qed

theorem empty_answer_scores_witness:
  "[] \<notin> set [''stack'', ''queue''] \<and> (0::rat) < 40
   \<and> keywordRatio (normalizeAnswer []) [''stack'', ''queue''] = Inr 0
   \<and> lengthScore (length (words (normalizeAnswer []))) 40 = Inr 0
   \<and> (\<exists>fb. scoreAnswer [] [''stack'', ''queue''] 40 = Inr fb \<and> score fb = 14 / 5
          \<and> technical_accuracy fb = 0 \<and> clarity fb = 9 \<and> structure fb = 5)"
proof -
  have h1: "[] \<notin> set [''stack'', ''queue'']" by simp
  have h2: "(0::rat) < 40" by simp
  show ?thesis using h1 h2 empty_answer_scores [OF h1 h2] by blast
qed

subsection \<open>The voice filler count\<close>

lemma splitRe_no_sep: "w \<in> set (splitRe sep s) \<Longrightarrow> c \<in> set w \<Longrightarrow> \<not> sep c"
proof (induction sep s arbitrary: w rule: splitRe.induct)
  case (1 sep)
  then show ?case by simp
next
  case (2 sep d ds)
  show ?case
  proof (cases "sep d")
    case True
    with "2.prems"(1) have "w = [] \<or> w \<in> set (splitRe sep (dropWhile sep ds))"
      by simp
    with "2.prems"(2) have "w \<in> set (splitRe sep (dropWhile sep ds))"
      by auto
    then show ?thesis
      using "2.IH"(1) [OF True] "2.prems"(2) by blast
  next
    case False
    show ?thesis
    proof (cases "splitRe sep ds")
      case Nil
      with False "2.prems" show ?thesis by simp
    next
      case (Cons f fs)
      with False "2.prems"(1) have "w = d # f \<or> w \<in> set fs"
        by simp
      then show ?thesis
      proof
        assume w: "w = d # f"
        have "f \<in> set (splitRe sep ds)" by (simp add: Cons)
        then have "c \<in> set f \<Longrightarrow> \<not> sep c"
          using "2.IH"(2) [OF False] by blast
        with w "2.prems"(2) False show ?thesis by auto
      next
        assume "w \<in> set fs"
        then have "w \<in> set (splitRe sep ds)" by (simp add: Cons)
        then show ?thesis
          using "2.IH"(2) [OF False] "2.prems"(2) by blast
      qed
    qed
  qed
qed

lemma transcriptWords_no_space:
  "w \<in> set (transcriptWords t) \<Longrightarrow> c \<in> set w \<Longrightarrow> \<not> isSpace c"
  unfolding transcriptWords_def using splitRe_no_sep [of w isSpace t c] by simp

lemma toLowerChar_space: "toLowerChar c = CHR 0x20 \<Longrightarrow> c = CHR 0x20"
proof (cases "65 \<le> (of_char c :: nat) \<and> (of_char c :: nat) \<le> 90")
  case True
  assume "toLowerChar c = CHR 0x20"
  with True have "char_of (of_char c + 32 :: nat) = CHR 0x20"
    by (simp add: toLowerChar_def Let_def)
  then have "(of_char (char_of (of_char c + 32 :: nat) :: char) :: nat) = of_char (CHR 0x20)"
    by simp
  then have "(of_char c + 32 :: nat) mod 256 = 32" by simp
  with True show ?thesis by simp
next
  case False
  assume "toLowerChar c = CHR 0x20"
  with False show ?thesis by (auto simp: toLowerChar_def Let_def)
qed

lemma you_know_never:
  assumes "w \<in> set (transcriptWords t)"
  shows "removePunct (toLowerCase w) \<noteq> ''you know''"
proof
  assume eq: "removePunct (toLowerCase w) = ''you know''"
  have "CHR 0x20 \<in> set ''you know''" by simp
  then have "CHR 0x20 \<in> set (removePunct (toLowerCase w))" by (simp only: eq)
  then have "CHR 0x20 \<in> toLowerChar ` set w" by (auto simp: removePunct_def toLowerCase_def)
  then obtain c where c: "c \<in> set w" "toLowerChar c = CHR 0x20" by auto
  then have "c = CHR 0x20" using toLowerChar_space by simp
  then have "isSpace c" by (simp add: isSpace_def)
  with transcriptWords_no_space [OF assms c(1)] show False by simp
qed

lemma fillerWordCount_one_word:
  "fillerWordCount (transcriptWords t)
     = length (filter (\<lambda>w. removePunct (toLowerCase w) \<in> set oneWordFillers) (transcriptWords t))"
  unfolding fillerWordCount_def
  by (rule arg_cong [where f = length], rule filter_cong)
     (auto simp: voiceFillerWords_def oneWordFillers_def dest: you_know_never)

lemma removePunct_filler: "f \<in> set voiceFillerWords \<Longrightarrow> removePunct f = f"
  by (auto simp: voiceFillerWords_def removePunct_def)

lemma removePunct_stripTrailing:
  assumes "stripTrailingPunct u \<in> set voiceFillerWords"
  shows "removePunct u = stripTrailingPunct u"
proof -
  let ?P = "\<lambda>c. c \<in> set ''.,!?''"
  have "u = rev (rev u)" by simp
  also have "\<dots> = rev (takeWhile ?P (rev u) @ dropWhile ?P (rev u))"
    by (simp only: takeWhile_dropWhile_id)
  also have "\<dots> = rev (dropWhile ?P (rev u)) @ rev (takeWhile ?P (rev u))"
    by (rule rev_append)
  finally have u: "u = stripTrailingPunct u @ rev (takeWhile ?P (rev u))"
    by (simp only: stripTrailingPunct_def)
  have "filter (\<lambda>c. \<not> ?P c) (rev (takeWhile ?P (rev u))) = []"
    by (auto simp: filter_empty_conv dest: set_takeWhileD)
  then have "removePunct (stripTrailingPunct u @ rev (takeWhile ?P (rev u)))
      = removePunct (stripTrailingPunct u)"
    by (simp add: removePunct_def)
  with u have "removePunct u = removePunct (stripTrailingPunct u)" by simp
  with removePunct_filler [OF assms] show ?thesis by simp
qed

lemma length_filter_mono:
  "(\<And>x. x \<in> set xs \<Longrightarrow> P x \<Longrightarrow> Q x) \<Longrightarrow> length (filter P xs) \<le> length (filter Q xs)"
  by (induction xs) auto

lemma trailing_le_code: "trailingFillerWordCount ws \<le> fillerWordCount ws"
  unfolding trailingFillerWordCount_def fillerWordCount_def
  by (rule length_filter_mono) (simp add: removePunct_stripTrailing)

text \<open>
  Claim C8, as stated, fails. In the transcript \<open>and ...so it works\<close> the token
  \<open>...so\<close> has its punctuation in front. The code deletes every \<open>.\<close>, \<open>,\<close>,
  \<open>!\<close> and \<open>?\<close> of a token, wherever it stands, so it counts that token as the
  filler \<open>so\<close>; stripping trailing punctuation leaves \<open>...so\<close>, which is no filler.
\<close>

theorem voice_filler_count_counterexample:
  "fillerWordCount (transcriptWords leadingDotsTranscript) = 1
   \<and> trailingFillerWordCount (transcriptWords leadingDotsTranscript) = 0
   \<and> filler_word_count (projr (voiceAnalytics (Some leadingDotsTranscript) 8)) = 1"
  by code_simp

text \<open>
  Claim C8, amended. For every transcript, the filler count is the number of whitespace
  tokens that, once lower-cased and with every \<open>.\<close>, \<open>,\<close>, \<open>!\<close> and \<open>?\<close>
  deleted wherever it occurs in the token, equal one of the eight one-word fillers (the
  ninth entry, \<open>you know\<close>, contains a space and never equals a token). Every token
  counted after stripping trailing punctuation only is counted by the code as well, and
  for a non-empty transcript this count is the \<open>filler_word_count\<close> that is stored.
\<close>

theorem voice_filler_count:
  "fillerWordCount (transcriptWords t)
     = length (filter (\<lambda>w. removePunct (toLowerCase w) \<in> set oneWordFillers) (transcriptWords t))
   \<and> trailingFillerWordCount (transcriptWords t) \<le> fillerWordCount (transcriptWords t)
   \<and> (t \<noteq> [] \<longrightarrow> (\<exists>vm. voiceAnalytics (Some t) c = Inr vm
          \<and> filler_word_count vm = fillerWordCount (transcriptWords t)))"
  by (simp add: fillerWordCount_one_word [symmetric] trailing_le_code voiceAnalytics_def Let_def
      fillerRatio_value bindE_Inr)

theorem voice_filler_count_witness:
  "fillerWordCount (transcriptWords leadingDotsTranscript)
     = length (filter (\<lambda>w. removePunct (toLowerCase w) \<in> set oneWordFillers)
         (transcriptWords leadingDotsTranscript))
   \<and> leadingDotsTranscript \<noteq> []
   \<and> (\<exists>vm. voiceAnalytics (Some leadingDotsTranscript) 8 = Inr vm
          \<and> filler_word_count vm = fillerWordCount (transcriptWords leadingDotsTranscript))"
proof -
  have h: "leadingDotsTranscript \<noteq> []" by (simp add: leadingDotsTranscript_def)
  show ?thesis using h voice_filler_count [of leadingDotsTranscript 8] by blast
qed

end
